theory Spec2Isabelle
  imports Complex_Main "HOL-Library.Word"
begin

section \<open>JavaScript strings\<close>

text \<open>
  A JavaScript string is a sequence of 16-bit code units. The literals of the source are
  ASCII, written here as \<open>lit ''...''\<close>.
\<close>

type_synonym jschar = "16 word"
type_synonym jsstring = "jschar list"

definition lit :: "string \<Rightarrow> jsstring" where
  "lit s = map of_char s"

text \<open>\<^verbatim>\<open>s.startsWith(p)\<close>\<close>

fun startsWith :: "jsstring \<Rightarrow> jsstring \<Rightarrow> bool" where
  "startsWith s [] = True"
| "startsWith [] (p # ps) = False"
| "startsWith (c # cs) (p # ps) = (c = p \<and> startsWith cs ps)"

text \<open>\<^verbatim>\<open>s.includes(sub)\<close>\<close>

fun includes_str :: "jsstring \<Rightarrow> jsstring \<Rightarrow> bool" where
  "includes_str [] sub = (sub = [])"
| "includes_str (c # cs) sub = (startsWith (c # cs) sub \<or> includes_str cs sub)"

text \<open>\<^verbatim>\<open>s.split(sep)\<close> for a separator of one code unit; the result is never empty.\<close>

fun split :: "jschar \<Rightarrow> jsstring \<Rightarrow> jsstring list" where
  "split sep [] = [[]]"
| "split sep (c # cs) =
     (if c = sep then [] # split sep cs
      else (case split sep cs of
              [] \<Rightarrow> [[c]]
            | p # ps \<Rightarrow> (c # p) # ps))"

text \<open>\<^verbatim>\<open>xs[i]\<close> on an array of strings: \<open>None\<close> is \<^verbatim>\<open>undefined\<close>.\<close>

fun at_index :: "'a list \<Rightarrow> nat \<Rightarrow> 'a option" where
  "at_index [] i = None"
| "at_index (x # xs) 0 = Some x"
| "at_index (x # xs) (Suc i) = at_index xs i"

text \<open>
  \<^verbatim>\<open>s.toLowerCase()\<close> on the code units a header value or a blob type can hold
  (at most 255): A-Z and the upper-case letters of Latin-1 move up by 32. Units above 255
  do not occur there and are left as they are.
\<close>

definition lowerUnit :: "jschar \<Rightarrow> jschar" where
  "lowerUnit c =
     (if (65 \<le> c \<and> c \<le> 90) \<or> (192 \<le> c \<and> c \<le> 214) \<or> (216 \<le> c \<and> c \<le> 222)
      then c + 32 else c)"

definition toLowerCase :: "jsstring \<Rightarrow> jsstring" where
  "toLowerCase s = map lowerUnit s"

text \<open>
  \<^verbatim>\<open>s.trim()\<close> strips the WhiteSpace and LineTerminator code points of ECMAScript
  from both ends.
\<close>

definition isWhiteSpace :: "jschar \<Rightarrow> bool" where
  "isWhiteSpace c \<longleftrightarrow>
     (9 \<le> c \<and> c \<le> 13) \<or> c = 32 \<or> c = 160 \<or> c = 5760 \<or> (8192 \<le> c \<and> c \<le> 8202) \<or>
     c = 8232 \<or> c = 8233 \<or> c = 8239 \<or> c = 8287 \<or> c = 12288 \<or> c = 65279"

definition trim :: "jsstring \<Rightarrow> jsstring" where
  "trim s = rev (dropWhile isWhiteSpace (rev (dropWhile isWhiteSpace s)))"

text \<open>\<^verbatim>\<open>s.replace(a, b)\<close> for one code unit: the first occurrence only.\<close>

fun replaceFirst :: "jschar \<Rightarrow> jschar \<Rightarrow> jsstring \<Rightarrow> jsstring" where
  "replaceFirst a b [] = []"
| "replaceFirst a b (c # cs) = (if c = a then b # cs else c # replaceFirst a b cs)"

text \<open>\<^verbatim>\<open>s.replace(/a/g, b)\<close>: every occurrence.\<close>

definition replaceAll :: "jschar \<Rightarrow> jschar \<Rightarrow> jsstring \<Rightarrow> jsstring" where
  "replaceAll a b s = map (\<lambda>c. if c = a then b else c) s"

text \<open>A non-negative integer in a template literal: its decimal digits.\<close>

definition digit :: "nat \<Rightarrow> jschar" where
  "digit d = of_nat (48 + d)"

function decimal :: "nat \<Rightarrow> jsstring" where
  "decimal n = (if n < 10 then [digit n] else decimal (n div 10) @ [digit (n mod 10)])"
  by pat_completeness auto
termination
  by (relation "measure id") auto

declare decimal.simps [simp del]

text \<open>\<^verbatim>\<open>a || b\<close> on strings, and on an optional string with a default.\<close>

definition orString :: "jsstring \<Rightarrow> jsstring \<Rightarrow> jsstring" where
  "orString a b = (if a \<noteq> [] then a else b)"

fun orDefault :: "jsstring option \<Rightarrow> jsstring \<Rightarrow> jsstring" where
  "orDefault None d = d"
| "orDefault (Some s) d = orString s d"

text \<open>
  The conversion of a string to a \<^verbatim>\<open>USVString\<close>, which \<^verbatim>\<open>FormData.append\<close> applies to
  its arguments: a high surrogate followed by a low one stays, every other surrogate
  becomes U+FFFD. \<open>isWellFormed\<close> is \<^verbatim>\<open>s.isWellFormed()\<close>: no surrogate stands alone.
\<close>

definition isHighSurrogate :: "jschar \<Rightarrow> bool" where
  "isHighSurrogate c \<longleftrightarrow> 55296 \<le> c \<and> c \<le> 56319"

definition isLowSurrogate :: "jschar \<Rightarrow> bool" where
  "isLowSurrogate c \<longleftrightarrow> 56320 \<le> c \<and> c \<le> 57343"

fun toUSVString :: "jsstring \<Rightarrow> jsstring" where
  "toUSVString [] = []"
| "toUSVString [c] = (if isHighSurrogate c \<or> isLowSurrogate c then [65533] else [c])"
| "toUSVString (c # d # rest) =
     (if isHighSurrogate c \<and> isLowSurrogate d then c # d # toUSVString rest
      else if isHighSurrogate c \<or> isLowSurrogate c then 65533 # toUSVString (d # rest)
      else c # toUSVString (d # rest))"

fun isWellFormed :: "jsstring \<Rightarrow> bool" where
  "isWellFormed [] = True"
| "isWellFormed [c] = (\<not> isHighSurrogate c \<and> \<not> isLowSurrogate c)"
| "isWellFormed (c # d # rest) =
     (if isHighSurrogate c \<and> isLowSurrogate d then isWellFormed rest
      else \<not> isHighSurrogate c \<and> \<not> isLowSurrogate c \<and> isWellFormed (d # rest))"

text \<open>Truthiness of an optional string: present and not empty.\<close>

fun given :: "jsstring option \<Rightarrow> bool" where
  "given None = False"
| "given (Some s) = (s \<noteq> [])"

section \<open>Base64\<close>

definition b64 :: "nat \<Rightarrow> jschar" where
  "b64 i = lit ''ABCDEFGHIJKLMNOPQRSTUVWXYZabcdefghijklmnopqrstuvwxyz0123456789+/'' ! (i mod 64)"

fun base64 :: "8 word list \<Rightarrow> jsstring" where
  "base64 (a # b # c # rest) =
     [b64 (unat a div 4), b64 (unat a mod 4 * 16 + unat b div 16),
      b64 (unat b mod 16 * 4 + unat c div 64), b64 (unat c mod 64)] @ base64 rest"
| "base64 [a, b] =
     [b64 (unat a div 4), b64 (unat a mod 4 * 16 + unat b div 16),
      b64 (unat b mod 16 * 4), 61]"
| "base64 [a] = [b64 (unat a div 4), b64 (unat a mod 4 * 16), 61, 61]"
| "base64 [] = []"

section \<open>Exceptions\<close>

text \<open>
  What a \<^verbatim>\<open>throw\<close> or a rejected promise carries. The source tells errors apart only by
  \<^verbatim>\<open>instanceof TypeError\<close>. The three failures the source raises itself are all
  \<^verbatim>\<open>new Error(message)\<close>, told apart by their message.
\<close>

datatype exn =
    Error jsstring
  | TypeError jsstring
  | SyntaxError jsstring
  | URIError jsstring
  | InvalidCharacterError
  | OtherError jsstring

text \<open>
  \<^verbatim>\<open>btoa(s)\<close>: every code unit is taken as one byte; a code unit above 255 makes it throw
  an InvalidCharacterError.
\<close>

definition btoa :: "jsstring \<Rightarrow> exn + jsstring" where
  "btoa s = (if \<forall>c \<in> set s. c \<le> 255 then Inr (base64 (map ucast s)) else Inl InvalidCharacterError)"

section \<open>Data model\<close>

text \<open>
  \<^verbatim>\<open>AuthConfig\<close> of the types module, every field but the tag optional: username and
  password, headerName and headerValue, token.
\<close>

datatype AuthConfig =
    NoAuth
  | BasicAuth "jsstring option" "jsstring option"
  | HeaderAuth "jsstring option" "jsstring option"
  | JwtAuth "jsstring option"

record File =
  file_name :: jsstring
  file_type :: jsstring
  file_bytes :: "8 word list"

datatype FormDataEntryValue = FormString jsstring | FormFile File

type_synonym FormData = "(jsstring \<times> FormDataEntryValue) list"

record request =
  req_url :: jsstring
  req_method :: jsstring
  req_body :: FormData
  req_headers :: "(jsstring \<times> jsstring) list"

text \<open>
  A JavaScript value as \<^verbatim>\<open>JSON.parse\<close> returns it, together with \<^verbatim>\<open>undefined\<close>.
  An object is the list of its own properties in order.
\<close>

datatype jsvalue =
    JUndefined
  | JNull
  | JBool bool
  | JNumber real
  | JString jsstring
  | JArray "jsvalue list"
  | JObject "(jsstring \<times> jsvalue) list"

record Blob =
  blob_type :: jsstring
  blob_bytes :: "8 word list"

text \<open>
  A response as the source reads it: the status line, \<^verbatim>\<open>headers.get\<close> (\<open>None\<close> is
  \<^verbatim>\<open>null\<close>), and what \<^verbatim>\<open>await response.text()\<close> and \<^verbatim>\<open>await response.blob()\<close>
  settle to (\<open>Inl\<close> is a rejection).
\<close>

record Response =
  status :: nat
  statusText :: jsstring
  headers_get :: "jsstring \<Rightarrow> jsstring option"
  text_result :: "exn + jsstring"
  blob_result :: "exn + Blob"

definition ok :: "Response \<Rightarrow> bool" where
  "ok response \<longleftrightarrow> 200 \<le> status response \<and> status response \<le> 299"

text \<open>
  The platform the function runs on: the network behind \<^verbatim>\<open>fetch\<close>, \<^verbatim>\<open>JSON.parse\<close>,
  \<^verbatim>\<open>decodeURIComponent\<close>, the value of \<^verbatim>\<open>new Date().toISOString()\<close>, and the text
  that \<^verbatim>\<open>String(f)\<close> gives for the built-in function \<open>f\<close> that a plain object inherits
  under a name (engines differ in it).
\<close>

record platform =
  fetch :: "request \<Rightarrow> exn + Response"
  JSON_parse :: "jsstring \<Rightarrow> exn + jsvalue"
  decodeURIComponent :: "jsstring \<Rightarrow> exn + jsstring"
  toISOString_now :: jsstring
  inheritedFunctionText :: "jsstring \<Rightarrow> jsstring"

text \<open>What one call did: the requests it handed to \<^verbatim>\<open>fetch\<close>, and how its promise settled.\<close>

record outcome =
  issued :: "request list"
  result :: "exn + jsvalue list"

section \<open>The helpers of the service module\<close>

text \<open>
  \<^verbatim>\<open>FileReader.readAsDataURL\<close>: the source's comment gives the result as
  \<^verbatim>\<open>data:[mime/type];base64,[base64 string]\<close>; a blob without a type is announced as
  \<^verbatim>\<open>application/octet-stream\<close>. Reading a blob that is already in memory is taken to
  succeed, so \<^verbatim>\<open>reader.result\<close> is this string and the promise is not rejected.
\<close>

definition readAsDataURL :: "Blob \<Rightarrow> jsstring" where
  "readAsDataURL blob =
     lit ''data:'' @ orString (blob_type blob) (lit ''application/octet-stream'') @
     lit '';base64,'' @ base64 (blob_bytes blob)"

text \<open>\<^verbatim>\<open>blobToBase64\<close>: \<^verbatim>\<open>reader.result.split(',')[1]\<close>.\<close>

definition blobToBase64 :: "Blob \<Rightarrow> jsvalue" where
  "blobToBase64 blob =
     (case at_index (split 44 (readAsDataURL blob)) 1 of
        None \<Rightarrow> JUndefined
      | Some part \<Rightarrow> JString part)"

definition mimeMap :: "(jsstring \<times> jsstring) list" where
  "mimeMap =
     [(lit ''application/pdf'', lit ''pdf''),
      (lit ''application/zip'', lit ''zip''),
      (lit ''application/msword'', lit ''doc''),
      (lit ''application/vnd.openxmlformats-officedocument.wordprocessingml.document'', lit ''docx''),
      (lit ''application/vnd.ms-excel'', lit ''xls''),
      (lit ''application/vnd.openxmlformats-officedocument.spreadsheetml.sheet'', lit ''xlsx''),
      (lit ''application/vnd.ms-powerpoint'', lit ''ppt''),
      (lit ''application/vnd.openxmlformats-officedocument.presentationml.presentation'', lit ''pptx''),
      (lit ''text/plain'', lit ''txt''),
      (lit ''text/csv'', lit ''csv''),
      (lit ''text/html'', lit ''html''),
      (lit ''image/jpeg'', lit ''jpg''),
      (lit ''image/png'', lit ''png''),
      (lit ''image/gif'', lit ''gif''),
      (lit ''image/svg+xml'', lit ''svg''),
      (lit ''audio/mpeg'', lit ''mp3''),
      (lit ''audio/wav'', lit ''wav''),
      (lit ''audio/webm'', lit ''webm''),
      (lit ''video/mp4'', lit ''mp4''),
      (lit ''video/webm'', lit ''webm'')]"

text \<open>
  \<^verbatim>\<open>mimeMap[key]\<close>. The table is a plain object, so besides its own twenty entries a
  key finds what every object inherits from \<^verbatim>\<open>Object.prototype\<close>: a built-in function
  under eleven names, and the prototype object itself under \<^verbatim>\<open>__proto__\<close>. All of these
  are truthy. \<open>None\<close> is \<^verbatim>\<open>undefined\<close>.
\<close>

definition objectPrototypeNames :: "jsstring list" where
  "objectPrototypeNames =
     [lit ''constructor'', lit ''__defineGetter__'', lit ''__defineSetter__'',
      lit ''hasOwnProperty'', lit ''__lookupGetter__'', lit ''__lookupSetter__'',
      lit ''isPrototypeOf'', lit ''propertyIsEnumerable'', lit ''toString'', lit ''valueOf'',
      lit ''__proto__'', lit ''toLocaleString'']"

datatype lookupValue = Str jsstring | Inherited jsstring

definition mimeMap_lookup :: "jsstring \<Rightarrow> lookupValue option" where
  "mimeMap_lookup key =
     (case map_of mimeMap key of
        Some ext \<Rightarrow> Some (Str ext)
      | None \<Rightarrow> if key \<in> set objectPrototypeNames then Some (Inherited key) else None)"

text \<open>
  \<^verbatim>\<open>getExtensionFromMimeType\<close>. What it returns is a string, or an inherited value when
  the lower-cased type is one of the inherited names. \<^verbatim>\<open>parts[1]\<close> is \<^verbatim>\<open>undefined\<close>
  when the type has no slash, and an empty subtype is falsy as well.
\<close>

definition getExtensionFromMimeType :: "jsstring \<Rightarrow> lookupValue" where
  "getExtensionFromMimeType mimeType =
     (if mimeType = [] then Str (lit ''bin'')
      else
        let normalizedMimeType = hd (split 59 (toLowerCase mimeType)) in
        (case mimeMap_lookup normalizedMimeType of
           Some found \<Rightarrow> found
         | None \<Rightarrow>
             (case at_index (split 47 normalizedMimeType) 1 of
                None \<Rightarrow> Str (lit ''bin'')
              | Some subType \<Rightarrow>
                  if subType \<noteq> [] then Str (hd (split 43 subType)) else Str (lit ''bin''))))"

text \<open>
  A value inside a template literal: a string as it is, the prototype object as
  \<^verbatim>\<open>[object Object]\<close>, a built-in function as the platform prints it.
\<close>

definition templateText :: "platform \<Rightarrow> lookupValue \<Rightarrow> jsstring" where
  "templateText env v =
     (case v of
        Str s \<Rightarrow> s
      | Inherited name \<Rightarrow>
          if name = lit ''__proto__'' then lit ''[object Object]'' else inheritedFunctionText env name)"

text \<open>\<^verbatim>\<open>getMessageType\<close>, the local function of the binary branch.\<close>

definition getMessageType :: "jsstring \<Rightarrow> jsstring" where
  "getMessageType mimeType =
     (if startsWith mimeType (lit ''image/'') then lit ''image''
      else if startsWith mimeType (lit ''video/'') then lit ''video''
      else if startsWith mimeType (lit ''audio/'') then lit ''audio''
      else lit ''file'')"

text \<open>
  The regular expression \<^verbatim>\<open>/filename[^;=\n]*=((['"]).*?\2|[^;\n]*)/\<close>.
  \<open>filenameGroup\<close> is its first group, matched at the text after the equals sign: a
  quote, the shortest run without a line terminator up to the same quote, and that quote;
  failing that, the longest run free of semicolon and newline (which may be empty).
  \<open>filenameAt\<close> is a match that starts at the head of the text, \<open>filenameRegex_exec\<close>
  the leftmost one, as \<^verbatim>\<open>exec\<close> finds it; its value is \<^verbatim>\<open>matches[1]\<close>.
\<close>

definition isLineTerminator :: "jschar \<Rightarrow> bool" where
  "isLineTerminator c \<longleftrightarrow> c = 10 \<or> c = 13 \<or> c = 8232 \<or> c = 8233"

definition filenameGroup :: "jsstring \<Rightarrow> jsstring" where
  "filenameGroup s =
     (let unquoted = takeWhile (\<lambda>c. c \<noteq> 59 \<and> c \<noteq> 10) s in
      case s of
        [] \<Rightarrow> unquoted
      | q # rest \<Rightarrow>
          if q = 39 \<or> q = 34 then
            (let inner = takeWhile (\<lambda>c. c \<noteq> q) rest in
             if q \<in> set rest \<and> \<not> (\<exists>c \<in> set inner. isLineTerminator c)
             then q # inner @ [q] else unquoted)
          else unquoted)"

definition filenameAt :: "jsstring \<Rightarrow> jsstring option" where
  "filenameAt s =
     (if startsWith s (lit ''filename'') then
        (case dropWhile (\<lambda>c. c \<noteq> 59 \<and> c \<noteq> 61 \<and> c \<noteq> 10) (drop 8 s) of
           [] \<Rightarrow> None
         | c # rest \<Rightarrow> if c = 61 then Some (filenameGroup rest) else None)
      else None)"

fun filenameRegex_exec :: "jsstring \<Rightarrow> jsstring option" where
  "filenameRegex_exec [] = None"
| "filenameRegex_exec (c # cs) =
     (case filenameAt (c # cs) of
        Some g \<Rightarrow> Some g
      | None \<Rightarrow> filenameRegex_exec cs)"

text \<open>
  The \<^verbatim>\<open>fileName\<close> variable after the Content-Disposition block: \<open>None\<close> is
  \<^verbatim>\<open>undefined\<close>. \<^verbatim>\<open>decodeURIComponent\<close> may throw.
\<close>

definition dispositionFileName :: "platform \<Rightarrow> jsstring option \<Rightarrow> exn + jsstring option" where
  "dispositionFileName env disposition =
     (case disposition of
        None \<Rightarrow> Inr None
      | Some d \<Rightarrow>
          if d \<noteq> [] \<and> includes_str d (lit ''attachment'') then
            (case filenameRegex_exec d of
               None \<Rightarrow> Inr None
             | Some m \<Rightarrow>
                 if m \<noteq> [] then
                   (case decodeURIComponent env (filter (\<lambda>c. c \<noteq> 39 \<and> c \<noteq> 34) m) of
                      Inl e \<Rightarrow> Inl e
                    | Inr decoded \<Rightarrow> Inr (Some decoded))
                 else Inr None)
          else Inr None)"

text \<open>
  \<^verbatim>\<open>new Date().toISOString().slice(0, 19).replace('T', '_').replace(/:/g, '-')\<close>
\<close>

definition formattedDate :: "platform \<Rightarrow> jsstring" where
  "formattedDate env = replaceAll 58 45 (replaceFirst 84 95 (take 19 (toISOString_now env)))"

section \<open>sendToWebhook\<close>

text \<open>
  \<^verbatim>\<open>formData.append(name, value)\<close>: the name and a string value are converted to
  \<^verbatim>\<open>USVString\<close>, a File is stored as it is.
\<close>

definition formData_append :: "FormData \<Rightarrow> jsstring \<Rightarrow> FormDataEntryValue \<Rightarrow> FormData" where
  "formData_append formData name v =
     formData @ [(toUSVString name,
                  case v of
                    FormString s \<Rightarrow> FormString (toUSVString s)
                  | FormFile f \<Rightarrow> FormFile f)]"

text \<open>The form data: \<^verbatim>\<open>text\<close>, \<^verbatim>\<open>chatId\<close>, then \<^verbatim>\<open>files.forEach\<close> with its index.\<close>

fun appendFiles :: "FormData \<Rightarrow> nat \<Rightarrow> File list \<Rightarrow> FormData" where
  "appendFiles formData index [] = formData"
| "appendFiles formData index (file # rest) =
     appendFiles (formData_append formData (lit ''file'' @ decimal index) (FormFile file))
       (Suc index) rest"

definition buildFormData :: "jsstring \<Rightarrow> File list \<Rightarrow> jsstring \<Rightarrow> FormData" where
  "buildFormData text files chatId =
     appendFiles
       (formData_append (formData_append [] (lit ''text'') (FormString text))
          (lit ''chatId'') (FormString chatId))
       0 files"

text \<open>
  \<^verbatim>\<open>headers[name] = value\<close> on the plain object \<^verbatim>\<open>headers\<close>, which is empty before:
  the object gets the entry, except under the name \<^verbatim>\<open>__proto__\<close>, where the assignment
  runs the inherited setter, which ignores a string and stores nothing.
\<close>

definition headers_set :: "jsstring \<Rightarrow> jsstring \<Rightarrow> (jsstring \<times> jsstring) list" where
  "headers_set name v = (if name = lit ''__proto__'' then [] else [(name, v)])"

text \<open>
  The \<^verbatim>\<open>switch\<close> on \<^verbatim>\<open>authConfig.type\<close> that fills \<^verbatim>\<open>headers\<close>. It runs before the
  \<^verbatim>\<open>try\<close>, so what \<^verbatim>\<open>btoa\<close> throws leaves the function as it is.
\<close>

definition buildHeaders :: "AuthConfig \<Rightarrow> exn + (jsstring \<times> jsstring) list" where
  "buildHeaders authConfig =
     (case authConfig of
        BasicAuth username password \<Rightarrow>
          if given username \<or> given password then
            (case btoa (orDefault username [] @ lit '':'' @ orDefault password []) of
               Inl e \<Rightarrow> Inl e
             | Inr credentials \<Rightarrow> Inr (headers_set (lit ''Authorization'') (lit ''Basic '' @ credentials)))
          else Inr []
      | HeaderAuth headerName headerValue \<Rightarrow>
          if given headerName \<and> given headerValue
          then Inr (headers_set (orDefault headerName []) (orDefault headerValue []))
          else Inr []
      | JwtAuth token \<Rightarrow>
          if given token
          then Inr (headers_set (lit ''Authorization'') (lit ''Bearer '' @ orDefault token []))
          else Inr []
      | NoAuth \<Rightarrow> Inr [])"

text \<open>Truthiness, \<^verbatim>\<open>Array.isArray\<close> and \<^verbatim>\<open>typeof v === 'string'\<close>.\<close>

fun truthy :: "jsvalue \<Rightarrow> bool" where
  "truthy JUndefined = False"
| "truthy JNull = False"
| "truthy (JBool b) = b"
| "truthy (JNumber x) = (x \<noteq> 0)"
| "truthy (JString s) = (s \<noteq> [])"
| "truthy (JArray xs) = True"
| "truthy (JObject ps) = True"

fun isArray :: "jsvalue \<Rightarrow> bool" where
  "isArray (JArray xs) = True"
| "isArray v = False"

fun elements :: "jsvalue \<Rightarrow> jsvalue list" where
  "elements (JArray xs) = xs"
| "elements v = []"

fun isString :: "jsvalue \<Rightarrow> bool" where
  "isString (JString s) = True"
| "isString v = False"

text \<open>
  Reading the property \<^verbatim>\<open>responses\<close> or \<^verbatim>\<open>text\<close> of a value: a TypeError on
  \<^verbatim>\<open>null\<close> and \<^verbatim>\<open>undefined\<close>, the own property of an object, and \<^verbatim>\<open>undefined\<close> on
  every other value (no array, string, number or boolean has a property of either name).
\<close>

fun getProp :: "jsvalue \<Rightarrow> jsstring \<Rightarrow> exn + jsvalue" where
  "getProp JUndefined k = Inl (TypeError (lit ''Cannot read properties of undefined''))"
| "getProp JNull k = Inl (TypeError (lit ''Cannot read properties of null''))"
| "getProp (JObject ps) k = Inr (case map_of ps k of None \<Rightarrow> JUndefined | Some v \<Rightarrow> v)"
| "getProp v k = Inr JUndefined"

text \<open>The object literal \<^verbatim>\<open>{ type: 'text', content: c }\<close>.\<close>

definition textItem :: "jsvalue \<Rightarrow> jsvalue" where
  "textItem c = JObject [(lit ''type'', JString (lit ''text'')), (lit ''content'', c)]"

text \<open>The body of the inner \<^verbatim>\<open>try\<close>: \<^verbatim>\<open>JSON.parse\<close> and the three shapes.\<close>

definition parsedResponses :: "platform \<Rightarrow> jsstring \<Rightarrow> exn + jsvalue list" where
  "parsedResponses env responseText =
     (case JSON_parse env responseText of
        Inl e \<Rightarrow> Inl e
      | Inr responseData \<Rightarrow>
          (case getProp responseData (lit ''responses'') of
             Inl e \<Rightarrow> Inl e
           | Inr responses \<Rightarrow>
               if truthy responses \<and> isArray responses then Inr (elements responses)
               else if isArray responseData then Inr (elements responseData)
               else
                 (case getProp responseData (lit ''text'') of
                    Inl e \<Rightarrow> Inl e
                  | Inr t \<Rightarrow>
                      if truthy t \<and> isString t then Inr [textItem t]
                      else Inl (Error (lit
                        ''Invalid JSON structure from webhook. Expected { responses: [...] }, an array of responses, or { text: '' @ [39, 46, 46, 46, 39] @ lit '' }.'')))))"

text \<open>
  The text branch: the inner \<^verbatim>\<open>catch (e)\<close> takes whatever the inner \<^verbatim>\<open>try\<close> throws
  and returns the raw text as one item.
\<close>

definition textResponse :: "platform \<Rightarrow> Response \<Rightarrow> exn + jsvalue list" where
  "textResponse env response =
     (case text_result response of
        Inl e \<Rightarrow> Inl e
      | Inr responseText \<Rightarrow>
          if trim responseText = [] then Inr []
          else
            (case parsedResponses env responseText of
               Inl e \<Rightarrow> Inr [textItem (JString responseText)]
             | Inr items \<Rightarrow> Inr items))"

text \<open>The binary branch.\<close>

definition binaryResponse :: "platform \<Rightarrow> Response \<Rightarrow> jsstring \<Rightarrow> exn + jsvalue list" where
  "binaryResponse env response contentType =
     (case blob_result response of
        Inl e \<Rightarrow> Inl e
      | Inr blob \<Rightarrow>
          if length (blob_bytes blob) = 0 then Inr []
          else
            let base64Content = blobToBase64 blob in
            (case dispositionFileName env (headers_get response (lit ''content-disposition'')) of
               Inl e \<Rightarrow> Inl e
             | Inr fileName \<Rightarrow>
                 let fileName' =
                       (if given fileName then orDefault fileName []
                        else lit ''file-'' @ formattedDate env @ lit ''.'' @
                             templateText env
                               (getExtensionFromMimeType (orString (blob_type blob) contentType)))
                 in Inr [JObject
                      [(lit ''type'', JString (getMessageType (orString (blob_type blob) contentType))),
                       (lit ''content'', base64Content),
                       (lit ''fileName'', JString fileName'),
                       (lit ''mimeType'', JString (orString (blob_type blob) contentType))]]))"

text \<open>What the outer \<^verbatim>\<open>try\<close> does with a response.\<close>

definition processResponse :: "platform \<Rightarrow> Response \<Rightarrow> exn + jsvalue list" where
  "processResponse env response =
     (if \<not> ok response then
        (case text_result response of
           Inl e \<Rightarrow> Inl e
         | Inr errorText \<Rightarrow>
             Inl (Error (lit ''Request failed: '' @ decimal (status response) @ lit '' '' @
                         statusText response @ lit ''. Server response: '' @ errorText)))
      else
        let contentType = orDefault (headers_get response (lit ''content-type'')) [] in
        if \<not> startsWith contentType (lit ''application/json'') \<and>
           \<not> startsWith contentType (lit ''text/'')
        then binaryResponse env response contentType
        else textResponse env response)"

text \<open>The outer \<^verbatim>\<open>catch (error)\<close>.\<close>

definition networkErrorMessage :: jsstring where
  "networkErrorMessage =
     lit ''Network error or CORS issue. Check the webhook URL and server configuration.''"

fun outerCatch :: "exn + 'a \<Rightarrow> exn + 'a" where
  "outerCatch (Inl (TypeError m)) = Inl (Error networkErrorMessage)"
| "outerCatch r = r"

definition sendToWebhook ::
  "platform \<Rightarrow> jsstring \<Rightarrow> jsstring \<Rightarrow> File list \<Rightarrow> AuthConfig \<Rightarrow> jsstring \<Rightarrow> outcome" where
  "sendToWebhook env url text files authConfig chatId =
     (let formData = buildFormData text files chatId in
      case buildHeaders authConfig of
        Inl e \<Rightarrow> \<lparr>issued = [], result = Inl e\<rparr>
      | Inr headers \<Rightarrow>
          let init = \<lparr>req_url = url, req_method = lit ''POST'', req_body = formData,
                      req_headers = headers\<rparr>
          in \<lparr>issued = [init],
              result = outerCatch (case fetch env init of
                                     Inl e \<Rightarrow> Inl e
                                   | Inr response \<Rightarrow> processResponse env response)\<rparr>)"

section \<open>Example exchanges\<close>

text \<open>
  Concrete platforms for the examples below. \<open>exampleParse\<close> is \<^verbatim>\<open>JSON.parse\<close> on the
  bodies the examples use: five JSON texts with their values, and a SyntaxError on the other
  texts used, none of which is JSON. \<open>exampleDecode\<close> is \<^verbatim>\<open>decodeURIComponent\<close> on
  texts without a well-formed escape sequence (a percent sign followed by two hexadecimal
  digits), the only ones the examples use: such a text comes back as it is when it has no
  percent sign, and is malformed when it has one. \<open>exampleFunctionText\<close> prints a built-in
  function the way V8 does. The example network answers every request
  with the one response given, whose blob carries the declared content type and the bytes
  of the body text.
\<close>

definition exampleFile :: "jsstring \<Rightarrow> File" where
  "exampleFile n = \<lparr>file_name = n, file_type = lit ''text/plain'', file_bytes = [104, 105]\<rparr>"

definition exampleParse :: "jsstring \<Rightarrow> exn + jsvalue" where
  "exampleParse s =
     (if s = lit ''{\"foo\":1}'' then Inr (JObject [(lit ''foo'', JNumber 1)])
      else if s = lit ''{\"text\":\"\"}'' then Inr (JObject [(lit ''text'', JString [])])
      else if s = lit ''{\"text\":\"hello **world**\"}''
        then Inr (JObject [(lit ''text'', JString (lit ''hello **world**''))])
      else if s = lit ''{\"responses\":[{\"type\":\"text\",\"content\":\"a\"}],\"text\":\"b\"}''
        then Inr (JObject
               [(lit ''responses'',
                 JArray [JObject [(lit ''type'', JString (lit ''text'')),
                                  (lit ''content'', JString (lit ''a''))]]),
                (lit ''text'', JString (lit ''b''))])
      else if s = lit ''[{\"type\":\"text\",\"content\":\"a\"},7]''
        then Inr (JArray [JObject [(lit ''type'', JString (lit ''text'')),
                                   (lit ''content'', JString (lit ''a''))],
                          JNumber 7])
      else Inl (SyntaxError (lit ''Unexpected token'')))"

definition exampleDecode :: "jsstring \<Rightarrow> exn + jsstring" where
  "exampleDecode s = (if 37 \<in> set s then Inl (URIError (lit ''URI malformed'')) else Inr s)"

definition exampleHeadersGet :: "jsstring option \<Rightarrow> jsstring option \<Rightarrow> jsstring \<Rightarrow> jsstring option" where
  "exampleHeadersGet contentType disposition name =
     (if name = lit ''content-type'' then contentType
      else if name = lit ''content-disposition'' then disposition
      else None)"

definition exampleResponse ::
  "nat \<Rightarrow> jsstring \<Rightarrow> jsstring option \<Rightarrow> jsstring option \<Rightarrow> jsstring \<Rightarrow> Response" where
  "exampleResponse code reason contentType disposition bodyText =
     \<lparr>status = code, statusText = reason,
      headers_get = exampleHeadersGet contentType disposition,
      text_result = Inr bodyText,
      blob_result = Inr \<lparr>blob_type = orDefault contentType [], blob_bytes = map ucast bodyText\<rparr>\<rparr>"

definition exampleFunctionText :: "jsstring \<Rightarrow> jsstring" where
  "exampleFunctionText name =
     (if name = lit ''constructor'' then lit ''function Object() { [native code] }''
      else lit ''function '' @ name @ lit ''() { [native code] }'')"

definition examplePlatform :: "Response \<Rightarrow> platform" where
  "examplePlatform response =
     \<lparr>fetch = (\<lambda>init. Inr response), JSON_parse = exampleParse,
      decodeURIComponent = exampleDecode,
      toISOString_now = lit ''2025-01-15T10:30:45.123Z'',
      inheritedFunctionText = exampleFunctionText\<rparr>"

definition exampleInit :: "jsstring \<Rightarrow> jsstring \<Rightarrow> jsstring \<Rightarrow> request" where
  "exampleInit url text chatId =
     \<lparr>req_url = url, req_method = lit ''POST'',
      req_body = buildFormData text [] chatId, req_headers = []\<rparr>"

section \<open>Lemmas about the helpers\<close>

















lemma dropWhile_all_iff: "(\<forall>x \<in> set (dropWhile P xs). P x) \<longleftrightarrow> (\<forall>x \<in> set xs. P x)"
  by (induction xs) auto

lemma trim_Nil_iff: "trim s = [] \<longleftrightarrow> (\<forall>c \<in> set s. isWhiteSpace c)"
proof -
  have "trim s = [] \<longleftrightarrow> (\<forall>c \<in> set (dropWhile isWhiteSpace s). isWhiteSpace c)"
    by (simp add: trim_def)
  then show ?thesis
    by (simp add: dropWhile_all_iff)
qed

lemma not_surrogate: "c < 55296 \<Longrightarrow> \<not> isHighSurrogate c \<and> \<not> isLowSurrogate c"
  unfolding isHighSurrogate_def isLowSurrogate_def by unat_arith

lemma toUSVString_plain: "\<forall>c \<in> set s. c < 55296 \<Longrightarrow> toUSVString s = s"
  by (induction s rule: toUSVString.induct) (simp_all add: not_surrogate)

lemma toUSVString_wellFormed: "isWellFormed s \<Longrightarrow> toUSVString s = s"
  by (induction s rule: toUSVString.induct) (simp_all split: if_splits)

lemma digit_small: "d < 10 \<Longrightarrow> digit d < 55296"
proof -
  assume "d < 10"
  then have "d = 0 \<or> d = 1 \<or> d = 2 \<or> d = 3 \<or> d = 4 \<or> d = 5 \<or> d = 6 \<or> d = 7 \<or> d = 8 \<or> d = 9"
    by arith
  then show ?thesis
    by (auto simp: digit_def)
qed

lemma decimal_small: "c \<in> set (decimal n) \<Longrightarrow> c < 55296"
proof (induction n arbitrary: c rule: decimal.induct)
  case (1 n)
  show ?case
  proof (cases "n < 10")
    case True
    then have "decimal n = [digit n]"
      by (simp add: decimal.simps)
    then show ?thesis
      using "1.prems" True digit_small by simp
  next
    case False
    then have "decimal n = decimal (n div 10) @ [digit (n mod 10)]"
      by (subst decimal.simps) simp
    moreover have "digit (n mod 10) < 55296"
      by (rule digit_small) simp
    ultimately show ?thesis
      using "1.prems" "1.IH" [OF False] by auto
  qed
qed

lemma field_name_unchanged: "toUSVString (lit ''file'' @ decimal index) = lit ''file'' @ decimal index"
proof (rule toUSVString_plain)
  have "\<forall>c \<in> set (lit ''file''). c < 55296"
    by (simp add: lit_def)
  then show "\<forall>c \<in> set (lit ''file'' @ decimal index). c < 55296"
    using decimal_small by auto
qed

lemma appendFiles_map:
  "appendFiles formData index files =
     formData @ map (\<lambda>i. (lit ''file'' @ decimal (index + i), FormFile (files ! i))) [0..<length files]"
proof (induction files arbitrary: formData index)
  case Nil
  then show ?case by simp
next
  case (Cons f rest)
  show ?case
    by (simp add: Cons.IH formData_append_def field_name_unchanged map_upt_Suc del: upt_Suc)
qed

lemma buildFormData_fields:
  "buildFormData text files chatId =
     [(lit ''text'', FormString (toUSVString text)), (lit ''chatId'', FormString (toUSVString chatId))] @
     map (\<lambda>i. (lit ''file'' @ decimal i, FormFile (files ! i))) [0..<length files]"
proof -
  have "toUSVString (lit ''text'') = lit ''text''" "toUSVString (lit ''chatId'') = lit ''chatId''"
    by (rule toUSVString_plain, simp add: lit_def)+
  then show ?thesis
    by (simp add: buildFormData_def appendFiles_map formData_append_def)
qed

lemma lit_Cons_not_Nil: "lit (c # cs) \<noteq> []"
  by (simp add: lit_def)


lemma dispositionFileName_absent: "dispositionFileName env None = Inr None"
  by (simp add: dispositionFileName_def)












lemma base64_rfc4648:
  "base64 [] = []"
  "base64 (map ucast (lit ''f'')) = lit ''Zg==''"
  "base64 (map ucast (lit ''fo'')) = lit ''Zm8=''"
  "base64 (map ucast (lit ''foo'')) = lit ''Zm9v''"
  "base64 (map ucast (lit ''foob'')) = lit ''Zm9vYg==''"
  "base64 (map ucast (lit ''fooba'')) = lit ''Zm9vYmE=''"
  "base64 (map ucast (lit ''foobar'')) = lit ''Zm9vYmFy''"
  by (simp_all add: lit_def b64_def)


section \<open>Lemmas about sendToWebhook\<close>

lemma sendToWebhook_issued:
  "buildHeaders authConfig = Inr h \<Longrightarrow>
   issued (sendToWebhook env url text files authConfig chatId) =
     [\<lparr>req_url = url, req_method = lit ''POST'', req_body = buildFormData text files chatId,
       req_headers = h\<rparr>]"
  by (simp add: sendToWebhook_def Let_def)

lemma sendToWebhook_thrown:
  "buildHeaders authConfig = Inl e \<Longrightarrow>
   sendToWebhook env url text files authConfig chatId = \<lparr>issued = [], result = Inl e\<rparr>"
  by (simp add: sendToWebhook_def Let_def)

lemma sendToWebhook_result:
  assumes "issued (sendToWebhook env url text files authConfig chatId) = [init]"
  shows "result (sendToWebhook env url text files authConfig chatId) =
           outerCatch (case fetch env init of
                         Inl e \<Rightarrow> Inl e
                       | Inr response \<Rightarrow> processResponse env response)"
  using assms by (cases "buildHeaders authConfig") (auto simp: sendToWebhook_def Let_def)

lemma processResponse_failed:
  "\<not> ok response \<Longrightarrow>
   processResponse env response =
     (case text_result response of
        Inl e \<Rightarrow> Inl e
      | Inr errorText \<Rightarrow>
          Inl (Error (lit ''Request failed: '' @ decimal (status response) @ lit '' '' @
                      statusText response @ lit ''. Server response: '' @ errorText)))"
  by (simp add: processResponse_def)

lemma processResponse_text:
  "ok response \<Longrightarrow>
   startsWith (orDefault (headers_get response (lit ''content-type'')) []) (lit ''application/json'') \<or>
   startsWith (orDefault (headers_get response (lit ''content-type'')) []) (lit ''text/'') \<Longrightarrow>
   processResponse env response = textResponse env response"
  by (auto simp: processResponse_def Let_def)

lemma processResponse_binary:
  "ok response \<Longrightarrow>
   \<not> startsWith (orDefault (headers_get response (lit ''content-type'')) []) (lit ''application/json'') \<Longrightarrow>
   \<not> startsWith (orDefault (headers_get response (lit ''content-type'')) []) (lit ''text/'') \<Longrightarrow>
   processResponse env response =
     binaryResponse env response (orDefault (headers_get response (lit ''content-type'')) [])"
  by (simp add: processResponse_def Let_def)

lemma textResponse_blank:
  "text_result response = Inr responseText \<Longrightarrow> \<forall>c \<in> set responseText. isWhiteSpace c \<Longrightarrow>
   textResponse env response = Inr []"
  by (simp add: textResponse_def trim_Nil_iff)

lemma textResponse_parsed:
  "text_result response = Inr responseText \<Longrightarrow> \<exists>c \<in> set responseText. \<not> isWhiteSpace c \<Longrightarrow>
   textResponse env response =
     (case parsedResponses env responseText of
        Inl e \<Rightarrow> Inr [textItem (JString responseText)]
      | Inr items \<Rightarrow> Inr items)"
  by (auto simp: textResponse_def trim_Nil_iff)

lemma textResponse_never_throws:
  "text_result response = Inr responseText \<Longrightarrow> \<exists>items. textResponse env response = Inr items"
  by (simp add: textResponse_def split: sum.splits)

lemma parsedResponses_syntax_error:
  "JSON_parse env responseText = Inl e \<Longrightarrow> parsedResponses env responseText = Inl e"
  by (simp add: parsedResponses_def)

lemma parsedResponses_responses:
  "JSON_parse env responseText = Inr (JObject props) \<Longrightarrow>
   map_of props (lit ''responses'') = Some (JArray xs) \<Longrightarrow>
   parsedResponses env responseText = Inr xs"
  by (simp add: parsedResponses_def)

lemma parsedResponses_array:
  "JSON_parse env responseText = Inr (JArray xs) \<Longrightarrow> parsedResponses env responseText = Inr xs"
  by (simp add: parsedResponses_def)

lemma not_array_responses:
  "\<forall>xs. map_of props k \<noteq> Some (JArray xs) \<Longrightarrow>
   \<not> (truthy (case map_of props k of None \<Rightarrow> JUndefined | Some v \<Rightarrow> v) \<and>
      isArray (case map_of props k of None \<Rightarrow> JUndefined | Some v \<Rightarrow> v))"
  by (cases "map_of props k"; simp) (metis isArray.elims(2))

lemma parsedResponses_text:
  "JSON_parse env responseText = Inr (JObject props) \<Longrightarrow>
   \<forall>xs. map_of props (lit ''responses'') \<noteq> Some (JArray xs) \<Longrightarrow>
   map_of props (lit ''text'') = Some (JString s) \<Longrightarrow> s \<noteq> [] \<Longrightarrow>
   parsedResponses env responseText = Inr [textItem (JString s)]"
  using not_array_responses [of props "lit ''responses''"]
  by (auto simp: parsedResponses_def)

lemma example_issued:
  "issued (sendToWebhook env url text [] NoAuth chatId) = [exampleInit url text chatId]"
  by (simp add: sendToWebhook_def buildHeaders_def exampleInit_def Let_def)

lemma example_fetch: "fetch (examplePlatform response) init = Inr response"
  by (simp add: examplePlatform_def)

lemma decimal_digit: "n < 10 \<Longrightarrow> decimal n = [digit n]"
  by (simp add: decimal.simps)

lemma decimal_0: "decimal 0 = lit ''0''"
  by (simp add: decimal_digit digit_def lit_def)

lemma decimal_1: "decimal (Suc 0) = lit ''1''"
  by (simp add: decimal_digit digit_def lit_def)

lemma decimal_2: "decimal (Suc (Suc 0)) = lit ''2''"
  by (simp add: decimal_digit digit_def lit_def)

lemma decimal_500: "decimal 500 = lit ''500''"
proof -
  have "decimal 500 = decimal 50 @ [digit 0]"
    by (subst decimal.simps) simp
  also have "decimal 50 = decimal 5 @ [digit 0]"
    by (subst decimal.simps) simp
  also have "decimal 5 = [digit 5]"
    by (simp add: decimal_digit)
  finally show ?thesis
    by (simp add: digit_def lit_def)
qed

lemma headers_set_entry: "name \<noteq> lit ''__proto__'' \<Longrightarrow> headers_set name v = [(name, v)]"
  by (simp add: headers_set_def)

lemma headers_set_Authorization: "headers_set (lit ''Authorization'') v = [(lit ''Authorization'', v)]"
  by (simp add: headers_set_def lit_def)

lemma buildHeaders_basic:
  assumes "given username \<or> given password"
      and "\<forall>c \<in> set (orDefault username [] @ lit '':'' @ orDefault password []). c \<le> 255"
  shows "buildHeaders (BasicAuth username password) =
           Inr [(lit ''Authorization'',
                 lit ''Basic '' @ base64 (map ucast (orDefault username [] @ lit '':'' @ orDefault password [])))]"
  using assms by (simp add: buildHeaders_def btoa_def headers_set_Authorization)

lemma sendToWebhook_text_path:
  assumes "issued (sendToWebhook env url text files authConfig chatId) = [init]"
      and "fetch env init = Inr response"
      and "200 \<le> status response \<and> status response \<le> 299"
      and "contentType = orDefault (headers_get response (lit ''content-type'')) []"
      and "startsWith contentType (lit ''application/json'') \<or> startsWith contentType (lit ''text/'')"
  shows "result (sendToWebhook env url text files authConfig chatId) =
           outerCatch (textResponse env response)"
proof -
  have "ok response"
    using assms(3) by (simp add: ok_def)
  then have "processResponse env response = textResponse env response"
    using assms(4,5) by (intro processResponse_text) simp_all
  then show ?thesis
    using sendToWebhook_result [OF assms(1)] assms(2) by simp
qed

lemma sendToWebhook_binary_path:
  assumes "issued (sendToWebhook env url text files authConfig chatId) = [init]"
      and "fetch env init = Inr response"
      and "200 \<le> status response \<and> status response \<le> 299"
      and "contentType = orDefault (headers_get response (lit ''content-type'')) []"
      and "\<not> startsWith contentType (lit ''application/json'')"
      and "\<not> startsWith contentType (lit ''text/'')"
  shows "result (sendToWebhook env url text files authConfig chatId) =
           outerCatch (binaryResponse env response contentType)"
proof -
  have "ok response"
    using assms(3) by (simp add: ok_def)
  then have "processResponse env response = binaryResponse env response contentType"
    using assms(4-6) by (simp add: processResponse_binary)
  then show ?thesis
    using sendToWebhook_result [OF assms(1)] assms(2) by simp
qed

lemma sendToWebhook_parsed:
  assumes "issued (sendToWebhook env url text files authConfig chatId) = [init]"
      and "fetch env init = Inr response"
      and "200 \<le> status response \<and> status response \<le> 299"
      and "contentType = orDefault (headers_get response (lit ''content-type'')) []"
      and "startsWith contentType (lit ''application/json'') \<or> startsWith contentType (lit ''text/'')"
      and "text_result response = Inr responseText"
      and "\<exists>c \<in> set responseText. \<not> isWhiteSpace c"
  shows "result (sendToWebhook env url text files authConfig chatId) =
           (case parsedResponses env responseText of
              Inl e \<Rightarrow> Inr [textItem (JString responseText)]
            | Inr items \<Rightarrow> Inr items)"
  using sendToWebhook_text_path [OF assms(1-5)] textResponse_parsed [OF assms(6,7)]
  by (simp split: sum.splits)


lemma text_path_never_fails:
  assumes "issued (sendToWebhook env url text files authConfig chatId) = [init]"
      and "fetch env init = Inr response"
      and "200 \<le> status response \<and> status response \<le> 299"
      and "contentType = orDefault (headers_get response (lit ''content-type'')) []"
      and "startsWith contentType (lit ''application/json'') \<or> startsWith contentType (lit ''text/'')"
      and "text_result response = Inr responseText"
  shows "\<exists>items. result (sendToWebhook env url text files authConfig chatId) = Inr items"
  using sendToWebhook_text_path [OF assms(1-5)] textResponse_never_throws [OF assms(6), of env]
  by auto

lemma parsedResponses_unrecognised:
  assumes "JSON_parse env responseText = Inr (JObject props)"
      and "\<forall>xs. map_of props (lit ''responses'') \<noteq> Some (JArray xs)"
      and "\<forall>s. map_of props (lit ''text'') = Some (JString s) \<longrightarrow> s = []"
  shows "\<exists>message. parsedResponses env responseText = Inl (Error message)"
proof -
  have "\<not> (truthy t \<and> isString t)" if "map_of props (lit ''text'') = Some t" for t
    using that assms(3) by (cases t) auto
  then have "\<not> (truthy (case map_of props (lit ''text'') of None \<Rightarrow> JUndefined | Some v \<Rightarrow> v) \<and>
               isString (case map_of props (lit ''text'') of None \<Rightarrow> JUndefined | Some v \<Rightarrow> v))"
    by (cases "map_of props (lit ''text'')") auto
  then show ?thesis
    using assms(1) not_array_responses [OF assms(2)]
    by (auto simp: parsedResponses_def)
qed

lemma unrecognised_shape_returned_as_text:
  assumes "issued (sendToWebhook env url text files authConfig chatId) = [init]"
      and "fetch env init = Inr response"
      and "200 \<le> status response \<and> status response \<le> 299"
      and "contentType = orDefault (headers_get response (lit ''content-type'')) []"
      and "startsWith contentType (lit ''application/json'') \<or> startsWith contentType (lit ''text/'')"
      and "text_result response = Inr responseText"
      and "\<exists>c \<in> set responseText. \<not> isWhiteSpace c"
      and "JSON_parse env responseText = Inr (JObject props)"
      and "\<forall>xs. map_of props (lit ''responses'') \<noteq> Some (JArray xs)"
      and "\<forall>s. map_of props (lit ''text'') = Some (JString s) \<longrightarrow> s = []"
  shows "result (sendToWebhook env url text files authConfig chatId) =
           Inr [JObject [(lit ''type'', JString (lit ''text'')),
                         (lit ''content'', JString responseText)]]"
  using sendToWebhook_parsed [OF assms(1-7)] parsedResponses_unrecognised [OF assms(8-10)]
  by (auto simp: textItem_def)

section \<open>Lemmas about the example exchanges\<close>

lemma example_status: "status (exampleResponse code reason contentType disposition b) = code"
  by (simp add: exampleResponse_def)

lemma example_content_type:
  "headers_get (exampleResponse code reason contentType disposition b) (lit ''content-type'') = contentType"
  by (simp add: exampleResponse_def exampleHeadersGet_def)

lemma example_disposition:
  "headers_get (exampleResponse code reason contentType disposition b) (lit ''content-disposition'') =
     disposition"
  by (simp add: exampleResponse_def exampleHeadersGet_def lit_def)

lemma example_text: "text_result (exampleResponse code reason contentType disposition b) = Inr b"
  by (simp add: exampleResponse_def)

lemma example_blob:
  "blob_result (exampleResponse code reason contentType disposition b) =
     Inr \<lparr>blob_type = orDefault contentType [], blob_bytes = map ucast b\<rparr>"
  by (simp add: exampleResponse_def)

lemma example_JSON_parse: "JSON_parse (examplePlatform response) = exampleParse"
  by (simp add: examplePlatform_def)

lemma example_decode: "decodeURIComponent (examplePlatform response) = exampleDecode"
  by (simp add: examplePlatform_def)

lemma example_date: "formattedDate (examplePlatform response) = lit ''2025-01-15_10-30-45''"
  by (simp add: examplePlatform_def formattedDate_def replaceAll_def lit_def)


lemma example_unquoted:
  "dispositionFileName (examplePlatform response) (Some (lit ''attachment; filename=report.pdf; size=3'')) =
     Inr (Some (lit ''report.pdf''))"
  by (simp add: dispositionFileName_def example_decode exampleDecode_def filenameAt_def
        filenameGroup_def isLineTerminator_def lit_def)

lemma example_inline:
  "dispositionFileName (examplePlatform response) (Some (lit ''inline; filename=\"report.pdf\"'')) =
     Inr None"
  by (simp add: dispositionFileName_def lit_def)

lemma example_declared_type:
  "lit (c # cs) =
     orDefault (headers_get (exampleResponse code reason (Some (lit (c # cs))) disposition b)
                  (lit ''content-type'')) []"
  by (simp add: example_content_type orString_def lit_Cons_not_Nil)

lemma example_twoxx:
  "200 \<le> status (exampleResponse 200 reason contentType disposition b) \<and>
   status (exampleResponse 200 reason contentType disposition b) \<le> 299"
  by (simp add: example_status)

section \<open>The claims\<close>

text \<open>
  C1 (the code does not do this). The claim: a 2xx text/JSON response whose body is valid
  JSON of none of the three shapes makes sendToWebhook fail with the "Invalid JSON structure"
  error. The source throws that error inside the \<^verbatim>\<open>try\<close> whose \<^verbatim>\<open>catch (e)\<close> is
  meant for a failure of \<^verbatim>\<open>JSON.parse\<close>, so the catch takes it as well and the raw body
  comes back as one text item. Evaluated here on the body \<^verbatim>\<open>{"foo":1}\<close>; lemma
  \<open>unrecognised_shape_returned_as_text\<close> has it for every object of no recognised shape,
  and by \<open>text_path_never_fails\<close> no body at all leads to the error.
\<close>

theorem C1_unrecognised_shape_returned_as_text:
  "result (sendToWebhook
             (examplePlatform (exampleResponse 200 (lit ''OK'') (Some (lit ''application/json'')) None
                (lit ''{\"foo\":1}'')))
             (lit ''https://example.org/hook'') (lit ''hi'') [] NoAuth (lit ''chat-1'')) =
     Inr [JObject [(lit ''type'', JString (lit ''text'')),
                   (lit ''content'', JString (lit ''{\"foo\":1}''))]]"
proof -
  let ?body = "lit ''{\"foo\":1}''"
  have textual: "startsWith (lit ''application/json'') (lit ''application/json'') \<or>
                 startsWith (lit ''application/json'') (lit ''text/'')"
    by (simp add: lit_def)
  have visible: "\<exists>c \<in> set ?body. \<not> isWhiteSpace c"
    by (simp add: lit_def isWhiteSpace_def)
  have thrown: "parsedResponses (examplePlatform r) ?body =
                  Inl (Error (lit
                        ''Invalid JSON structure from webhook. Expected { responses: [...] }, an array of responses, or { text: '' @ [39, 46, 46, 46, 39] @ lit '' }.''))" for r
    by (simp add: parsedResponses_def example_JSON_parse exampleParse_def lit_def)
  show ?thesis
    using sendToWebhook_parsed [OF example_issued example_fetch example_twoxx example_declared_type
        textual example_text visible]
    by (simp add: thrown textItem_def)
qed

text \<open>
  C2 (amended). A response with a status outside 200..299 whose body text can be read makes
  sendToWebhook fail with \<^verbatim>\<open>Error("Request failed: <status> <statusText>. Server response:
  <body>")\<close>. A failure to read the body is not swallowed: a TypeError from the read comes out
  as the network error, and any other rejection comes out unchanged.
\<close>

theorem C2_http_error:
  assumes "issued (sendToWebhook env url text files authConfig chatId) = [init]"
      and "fetch env init = Inr response"
      and "\<not> (200 \<le> status response \<and> status response \<le> 299)"
  shows "(\<forall>errorText. text_result response = Inr errorText \<longrightarrow>
            result (sendToWebhook env url text files authConfig chatId) =
              Inl (Error (lit ''Request failed: '' @ decimal (status response) @ lit '' '' @
                          statusText response @ lit ''. Server response: '' @ errorText))) \<and>
         (\<forall>m. text_result response = Inl (TypeError m) \<longrightarrow>
            result (sendToWebhook env url text files authConfig chatId) =
              Inl (Error networkErrorMessage)) \<and>
         (\<forall>e. text_result response = Inl e \<longrightarrow> (\<forall>m. e \<noteq> TypeError m) \<longrightarrow>
            result (sendToWebhook env url text files authConfig chatId) = Inl e)"
proof -
  have failed: "\<not> ok response"
    using assms(3) by (simp add: ok_def)
  have res: "result (sendToWebhook env url text files authConfig chatId) =
               outerCatch (processResponse env response)"
    using sendToWebhook_result [OF assms(1)] assms(2) by simp
  have other: "outerCatch (Inl e :: exn + jsvalue list) = Inl e" if "\<forall>m. e \<noteq> TypeError m" for e
    using that by (cases e) simp_all
  show ?thesis
    using other by (simp add: res processResponse_failed [OF failed])
qed

theorem C2_http_error_witness:
  "result (sendToWebhook
             (examplePlatform (exampleResponse 500 (lit ''Internal Server Error'')
                (Some (lit ''text/plain'')) None (lit ''boom'')))
             (lit ''https://example.org/hook'') (lit ''hi'') [] NoAuth (lit ''chat-1'')) =
   Inl (Error (lit ''Request failed: 500 Internal Server Error. Server response: boom''))"
proof -
  have msg: "lit ''Request failed: '' @ lit ''500'' @ lit '' '' @ lit ''Internal Server Error'' @
             lit ''. Server response: '' @ lit ''boom'' =
             lit ''Request failed: 500 Internal Server Error. Server response: boom''"
    by (simp add: lit_def)
  show ?thesis
    using C2_http_error [OF example_issued example_fetch,
        of "exampleResponse 500 (lit ''Internal Server Error'') (Some (lit ''text/plain'')) None (lit ''boom'')"
           "lit ''https://example.org/hook''" "lit ''hi''" "lit ''chat-1''"]
      msg
    by (simp add: exampleResponse_def decimal_500)
qed

text \<open>
  The claim as stated fails: a 500 response whose body read rejects with a TypeError is
  reported as the network error, not as the failed request.
\<close>

theorem C2_read_failure_counterexample:
  "result (sendToWebhook
             (examplePlatform
                ((exampleResponse 500 (lit ''Internal Server Error'') (Some (lit ''text/plain'')) None [])
                   \<lparr>text_result := Inl (TypeError (lit ''Failed to fetch''))\<rparr>))
             (lit ''https://example.org/hook'') (lit ''hi'') [] NoAuth (lit ''chat-1'')) =
   Inl (Error (lit ''Network error or CORS issue. Check the webhook URL and server configuration.''))"
  by (simp add: sendToWebhook_result [OF example_issued] example_fetch processResponse_def ok_def
        exampleResponse_def networkErrorMessage_def)

text \<open>
  C3 (amended). On a 2xx text/JSON response whose body parses to an object without an
  array-valued \<open>responses\<close> property and with a non-empty string as its \<open>text\<close> property,
  sendToWebhook succeeds with exactly one item, \<^verbatim>\<open>{ type: 'text', content: thatString }\<close>.
  (A body that parses as JSON has a character that is not white space.)
\<close>

theorem C3_text_field:
  assumes "issued (sendToWebhook env url text files authConfig chatId) = [init]"
      and "fetch env init = Inr response"
      and "200 \<le> status response \<and> status response \<le> 299"
      and "contentType = orDefault (headers_get response (lit ''content-type'')) []"
      and "startsWith contentType (lit ''application/json'') \<or> startsWith contentType (lit ''text/'')"
      and "text_result response = Inr responseText"
      and "\<exists>c \<in> set responseText. \<not> isWhiteSpace c"
      and "JSON_parse env responseText = Inr (JObject props)"
      and "\<forall>xs. map_of props (lit ''responses'') \<noteq> Some (JArray xs)"
      and "map_of props (lit ''text'') = Some (JString s)"
      and "s \<noteq> []"
  shows "result (sendToWebhook env url text files authConfig chatId) =
           Inr [JObject [(lit ''type'', JString (lit ''text'')), (lit ''content'', JString s)]]"
  using sendToWebhook_parsed [OF assms(1-7)] parsedResponses_text [OF assms(8-11)]
  by (simp add: textItem_def)

theorem C3_text_field_witness:
  "result (sendToWebhook
             (examplePlatform (exampleResponse 200 (lit ''OK'') (Some (lit ''application/json'')) None
                (lit ''{\"text\":\"hello **world**\"}'')))
             (lit ''https://example.org/hook'') (lit ''hi'') [] NoAuth (lit ''chat-1'')) =
     Inr [JObject [(lit ''type'', JString (lit ''text'')),
                   (lit ''content'', JString (lit ''hello **world**''))]]"
proof -
  let ?body = "lit ''{\"text\":\"hello **world**\"}''"
  let ?props = "[(lit ''text'', JString (lit ''hello **world**''))]"
  have twoxx: "200 \<le> status (exampleResponse 200 (lit ''OK'') (Some (lit ''application/json'')) None ?body) \<and>
               status (exampleResponse 200 (lit ''OK'') (Some (lit ''application/json'')) None ?body) \<le> 299"
    by (simp add: example_status)
  have textual: "startsWith (lit ''application/json'') (lit ''application/json'') \<or>
                 startsWith (lit ''application/json'') (lit ''text/'')"
    by (simp add: lit_def)
  have visible: "\<exists>c \<in> set ?body. \<not> isWhiteSpace c"
    by (simp add: lit_def isWhiteSpace_def)
  have parsed: "JSON_parse (examplePlatform r) ?body = Inr (JObject ?props)" for r
    by (simp add: example_JSON_parse exampleParse_def lit_def)
  have no_responses: "\<forall>xs. map_of ?props (lit ''responses'') \<noteq> Some (JArray xs)"
    by (simp add: lit_def)
  have field: "map_of ?props (lit ''text'') = Some (JString (lit ''hello **world**''))"
    by simp
  have nonempty: "lit ''hello **world**'' \<noteq> []"
    by (simp add: lit_def)
  show ?thesis
    using C3_text_field [OF example_issued example_fetch twoxx example_declared_type textual example_text visible
        parsed no_responses field nonempty] .
qed

text \<open>
  The claim as stated fails for the empty string: \<^verbatim>\<open>responseData.text && ...\<close> is false
  for it, and on the body \<^verbatim>\<open>{"text":""}\<close> the item holds the raw body, not the empty string.
\<close>

theorem C3_empty_text_counterexample:
  "result (sendToWebhook
             (examplePlatform (exampleResponse 200 (lit ''OK'') (Some (lit ''application/json'')) None
                (lit ''{\"text\":\"\"}'')))
             (lit ''https://example.org/hook'') (lit ''hi'') [] NoAuth (lit ''chat-1'')) =
     Inr [JObject [(lit ''type'', JString (lit ''text'')),
                   (lit ''content'', JString (lit ''{\"text\":\"\"}''))]] \<and>
   result (sendToWebhook
             (examplePlatform (exampleResponse 200 (lit ''OK'') (Some (lit ''application/json'')) None
                (lit ''{\"text\":\"\"}'')))
             (lit ''https://example.org/hook'') (lit ''hi'') [] NoAuth (lit ''chat-1'')) \<noteq>
     Inr [JObject [(lit ''type'', JString (lit ''text'')), (lit ''content'', JString [])]]"
proof -
  let ?body = "lit ''{\"text\":\"\"}''"
  have twoxx: "200 \<le> status (exampleResponse 200 (lit ''OK'') (Some (lit ''application/json'')) None ?body) \<and>
               status (exampleResponse 200 (lit ''OK'') (Some (lit ''application/json'')) None ?body) \<le> 299"
    by (simp add: example_status)
  have textual: "startsWith (lit ''application/json'') (lit ''application/json'') \<or>
                 startsWith (lit ''application/json'') (lit ''text/'')"
    by (simp add: lit_def)
  have visible: "\<exists>c \<in> set ?body. \<not> isWhiteSpace c"
    by (simp add: lit_def isWhiteSpace_def)
  have thrown: "parsedResponses (examplePlatform r) ?body =
                  Inl (Error (lit
                        ''Invalid JSON structure from webhook. Expected { responses: [...] }, an array of responses, or { text: '' @ [39, 46, 46, 46, 39] @ lit '' }.''))" for r
    by (simp add: parsedResponses_def example_JSON_parse exampleParse_def lit_def)
  have "result (sendToWebhook
             (examplePlatform (exampleResponse 200 (lit ''OK'') (Some (lit ''application/json'')) None ?body))
             (lit ''https://example.org/hook'') (lit ''hi'') [] NoAuth (lit ''chat-1'')) =
          Inr [textItem (JString ?body)]"
    using sendToWebhook_parsed [OF example_issued example_fetch twoxx example_declared_type textual example_text visible]
    by (simp add: thrown)
  moreover have "?body \<noteq> []"
    by (simp add: lit_def)
  ultimately show ?thesis
    by (simp add: textItem_def)
qed

text \<open>
  C4 (amended). The headers of the request sendToWebhook hands to fetch: header
  authentication gives the single header headerName: headerValue when both are non-empty and
  the name is not \<^verbatim>\<open>__proto__\<close>, and no header when one of the two is empty or unset; basic
  authentication gives no header when neither username nor password is non-empty, and
  \<open>Authorization: Basic base64(username:password)\<close> (an unset field as the empty string)
  when one is and no code unit of \<open>username:password\<close> is above 255; no authentication gives
  no header.
\<close>

theorem C4_auth_headers:
  "(n \<noteq> [] \<and> v \<noteq> [] \<and> n \<noteq> lit ''__proto__'' \<longrightarrow>
      map req_headers (issued (sendToWebhook env url text files (HeaderAuth (Some n) (Some v)) chatId)) =
        [[(n, v)]]) \<and>
   (\<not> (given headerName \<and> given headerValue) \<longrightarrow>
      map req_headers (issued (sendToWebhook env url text files (HeaderAuth headerName headerValue) chatId)) =
        [[]]) \<and>
   ((given username \<or> given password) \<and>
    (\<forall>c \<in> set (orDefault username [] @ lit '':'' @ orDefault password []). c \<le> 255) \<longrightarrow>
      map req_headers (issued (sendToWebhook env url text files (BasicAuth username password) chatId)) =
        [[(lit ''Authorization'',
           lit ''Basic '' @
           base64 (map ucast (orDefault username [] @ lit '':'' @ orDefault password [])))]]) \<and>
   (\<not> (given username \<or> given password) \<longrightarrow>
      map req_headers (issued (sendToWebhook env url text files (BasicAuth username password) chatId)) =
        [[]]) \<and>
   map req_headers (issued (sendToWebhook env url text files NoAuth chatId)) = [[]]"
proof -
  have header_both: "buildHeaders (HeaderAuth (Some n) (Some v)) = Inr [(n, v)]"
    if "n \<noteq> []" "v \<noteq> []" "n \<noteq> lit ''__proto__''"
    using that by (simp add: buildHeaders_def orString_def headers_set_entry)
  have header_half: "buildHeaders (HeaderAuth headerName headerValue) = Inr []"
    if "\<not> (given headerName \<and> given headerValue)"
    using that by (auto simp add: buildHeaders_def)
  have basic_none: "buildHeaders (BasicAuth username password) = Inr []"
    if "\<not> (given username \<or> given password)"
    using that by (simp add: buildHeaders_def)
  have none: "buildHeaders NoAuth = Inr []"
    by (simp add: buildHeaders_def)
  show ?thesis
    using header_both header_half basic_none none buildHeaders_basic [of username password]
    by (simp add: sendToWebhook_issued)
qed

theorem C4_auth_headers_witness:
  "map req_headers
     (issued (sendToWebhook (examplePlatform (exampleResponse 200 (lit ''OK'') None None []))
        (lit ''https://example.org/hook'') (lit ''hi'') []
        (HeaderAuth (Some (lit ''X-Api-Key'')) (Some (lit ''s3cret''))) (lit ''chat-1''))) =
     [[(lit ''X-Api-Key'', lit ''s3cret'')]] \<and>
   map req_headers
     (issued (sendToWebhook (examplePlatform (exampleResponse 200 (lit ''OK'') None None []))
        (lit ''https://example.org/hook'') (lit ''hi'') []
        (HeaderAuth (Some (lit ''X-Api-Key'')) None) (lit ''chat-1''))) = [[]] \<and>
   map req_headers
     (issued (sendToWebhook (examplePlatform (exampleResponse 200 (lit ''OK'') None None []))
        (lit ''https://example.org/hook'') (lit ''hi'') []
        (BasicAuth (Some (lit ''user'')) None) (lit ''chat-1''))) =
     [[(lit ''Authorization'', lit ''Basic dXNlcjo='')]] \<and>
   map req_headers
     (issued (sendToWebhook (examplePlatform (exampleResponse 200 (lit ''OK'') None None []))
        (lit ''https://example.org/hook'') (lit ''hi'') []
        (BasicAuth None (Some [])) (lit ''chat-1''))) = [[]]"
proof -
  have enc: "lit ''Basic '' @ base64 (map ucast (orDefault (Some (lit ''user'')) [] @ lit '':'' @ orDefault None [])) =
             lit ''Basic dXNlcjo=''"
    by (simp add: lit_def orString_def b64_def)
  have latin1: "\<forall>c \<in> set (orDefault (Some (lit ''user'')) [] @ lit '':'' @ orDefault None []). c \<le> 255"
    by (simp add: lit_def orString_def)
  show ?thesis
    using C4_auth_headers [of "lit ''X-Api-Key''" "lit ''s3cret''"
        "examplePlatform (exampleResponse 200 (lit ''OK'') None None [])"
        "lit ''https://example.org/hook''" "lit ''hi''" "[]" "lit ''chat-1''"
        "Some (lit ''X-Api-Key'')" None "Some (lit ''user'')" None]
      C4_auth_headers [of "lit ''X-Api-Key''" "lit ''s3cret''"
        "examplePlatform (exampleResponse 200 (lit ''OK'') None None [])"
        "lit ''https://example.org/hook''" "lit ''hi''" "[]" "lit ''chat-1''"
        "Some (lit ''X-Api-Key'')" None None "Some []"]
      enc latin1
    by (simp add: lit_def)
qed

text \<open>
  The claim as stated fails twice. For a username outside Latin-1 \<^verbatim>\<open>btoa\<close> throws (here on
  the euro sign, code unit 8364), before the \<^verbatim>\<open>try\<close>, so no request is made and no header
  emitted. For the header name \<^verbatim>\<open>__proto__\<close> with a non-empty value the assignment stores
  nothing, and the request goes out without a header.
\<close>

theorem C4_basic_counterexample:
  "sendToWebhook (examplePlatform (exampleResponse 200 (lit ''OK'') None None []))
     (lit ''https://example.org/hook'') (lit ''hi'') []
     (BasicAuth (Some [8364]) (Some (lit ''pw''))) (lit ''chat-1'') =
   \<lparr>issued = [], result = Inl InvalidCharacterError\<rparr> \<and>
   map req_headers
     (issued (sendToWebhook (examplePlatform (exampleResponse 200 (lit ''OK'') None None []))
        (lit ''https://example.org/hook'') (lit ''hi'') []
        (HeaderAuth (Some (lit ''__proto__'')) (Some (lit ''x''))) (lit ''chat-1''))) = [[]]"
proof -
  have thrown: "buildHeaders (BasicAuth (Some [8364]) (Some (lit ''pw''))) = Inl InvalidCharacterError"
    by (simp add: buildHeaders_def btoa_def orString_def lit_def)
  have dropped: "buildHeaders (HeaderAuth (Some (lit ''__proto__'')) (Some (lit ''x''))) = Inr []"
    by (simp add: buildHeaders_def headers_set_def orString_def lit_Cons_not_Nil)
  have basic: "sendToWebhook (examplePlatform (exampleResponse 200 (lit ''OK'') None None []))
     (lit ''https://example.org/hook'') (lit ''hi'') []
     (BasicAuth (Some [8364]) (Some (lit ''pw''))) (lit ''chat-1'') =
   \<lparr>issued = [], result = Inl InvalidCharacterError\<rparr>"
    by (rule sendToWebhook_thrown [OF thrown])
  have header: "map req_headers
     (issued (sendToWebhook (examplePlatform (exampleResponse 200 (lit ''OK'') None None []))
        (lit ''https://example.org/hook'') (lit ''hi'') []
        (HeaderAuth (Some (lit ''__proto__'')) (Some (lit ''x''))) (lit ''chat-1''))) = [[]]"
    by (subst sendToWebhook_issued [OF dropped]) simp
  show ?thesis
    using basic header by (rule conjI)
qed

text \<open>
  C5 (amended). On a 2xx text/JSON response whose body has a character that is not white
  space and on which \<^verbatim>\<open>JSON.parse\<close> throws, sendToWebhook succeeds with exactly one item
  of type text whose content is the raw body.
\<close>

theorem C5_parse_failure:
  assumes "issued (sendToWebhook env url text files authConfig chatId) = [init]"
      and "fetch env init = Inr response"
      and "200 \<le> status response \<and> status response \<le> 299"
      and "contentType = orDefault (headers_get response (lit ''content-type'')) []"
      and "startsWith contentType (lit ''application/json'') \<or> startsWith contentType (lit ''text/'')"
      and "text_result response = Inr responseText"
      and "\<exists>c \<in> set responseText. \<not> isWhiteSpace c"
      and "JSON_parse env responseText = Inl e"
  shows "result (sendToWebhook env url text files authConfig chatId) =
           Inr [JObject [(lit ''type'', JString (lit ''text'')),
                         (lit ''content'', JString responseText)]]"
  using sendToWebhook_parsed [OF assms(1-7)] parsedResponses_syntax_error [OF assms(8)]
  by (simp add: textItem_def)

theorem C5_parse_failure_witness:
  "result (sendToWebhook
             (examplePlatform (exampleResponse 200 (lit ''OK'') (Some (lit ''text/plain'')) None
                (lit ''just a string, not json'')))
             (lit ''https://example.org/hook'') (lit ''hi'') [] NoAuth (lit ''chat-1'')) =
     Inr [JObject [(lit ''type'', JString (lit ''text'')),
                   (lit ''content'', JString (lit ''just a string, not json''))]]"
proof -
  let ?body = "lit ''just a string, not json''"
  have textual: "startsWith (lit ''text/plain'') (lit ''application/json'') \<or>
                 startsWith (lit ''text/plain'') (lit ''text/'')"
    by (simp add: lit_def)
  have visible: "\<exists>c \<in> set ?body. \<not> isWhiteSpace c"
    by (simp add: lit_def isWhiteSpace_def)
  have unparsed: "JSON_parse (examplePlatform r) ?body = Inl (SyntaxError (lit ''Unexpected token''))" for r
    by (simp add: example_JSON_parse exampleParse_def lit_def)
  show ?thesis
    using C5_parse_failure [OF example_issued example_fetch example_twoxx example_declared_type
        textual example_text visible unparsed] .
qed

text \<open>
  The claim as stated fails for a body that is not empty but blank: one space is no JSON, and
  the result is the empty sequence, not a text item.
\<close>

theorem C5_blank_body_counterexample:
  "lit '' '' \<noteq> [] \<and>
   JSON_parse (examplePlatform (exampleResponse 200 (lit ''OK'') (Some (lit ''text/plain'')) None (lit '' '')))
     (lit '' '') = Inl (SyntaxError (lit ''Unexpected token'')) \<and>
   result (sendToWebhook
             (examplePlatform (exampleResponse 200 (lit ''OK'') (Some (lit ''text/plain'')) None (lit '' '')))
             (lit ''https://example.org/hook'') (lit ''hi'') [] NoAuth (lit ''chat-1'')) = Inr []"
proof -
  have textual: "startsWith (lit ''text/plain'') (lit ''application/json'') \<or>
                 startsWith (lit ''text/plain'') (lit ''text/'')"
    by (simp add: lit_def)
  have blank: "\<forall>c \<in> set (lit '' ''). isWhiteSpace c"
    by (simp add: lit_def isWhiteSpace_def)
  have "result (sendToWebhook
             (examplePlatform (exampleResponse 200 (lit ''OK'') (Some (lit ''text/plain'')) None (lit '' '')))
             (lit ''https://example.org/hook'') (lit ''hi'') [] NoAuth (lit ''chat-1'')) = Inr []"
    using sendToWebhook_text_path [OF example_issued example_fetch example_twoxx example_declared_type textual]
      textResponse_blank [OF example_text blank]
    by simp
  moreover have "exampleParse (lit '' '') = Inl (SyntaxError (lit ''Unexpected token''))"
    by (simp add: exampleParse_def lit_def)
  ultimately show ?thesis
    by (simp add: example_JSON_parse lit_Cons_not_Nil)
qed

text \<open>
  C6. On a 2xx response sendToWebhook succeeds with the empty sequence when the content type
  takes the binary branch and the blob has no bytes, and when the content type takes the
  text branch and the body is empty or white space only.
\<close>

theorem C6_empty_body:
  assumes "issued (sendToWebhook env url text files authConfig chatId) = [init]"
      and "fetch env init = Inr response"
      and "200 \<le> status response \<and> status response \<le> 299"
      and "contentType = orDefault (headers_get response (lit ''content-type'')) []"
  shows "(\<not> startsWith contentType (lit ''application/json'') \<and>
          \<not> startsWith contentType (lit ''text/'') \<longrightarrow>
          (\<forall>blob. blob_result response = Inr blob \<and> length (blob_bytes blob) = 0 \<longrightarrow>
             result (sendToWebhook env url text files authConfig chatId) = Inr [])) \<and>
         (startsWith contentType (lit ''application/json'') \<or>
          startsWith contentType (lit ''text/'') \<longrightarrow>
          (\<forall>responseText. text_result response = Inr responseText \<and>
                           (\<forall>c \<in> set responseText. isWhiteSpace c) \<longrightarrow>
             result (sendToWebhook env url text files authConfig chatId) = Inr []))"
proof (intro conjI impI allI)
  fix blob
  assume "\<not> startsWith contentType (lit ''application/json'') \<and>
          \<not> startsWith contentType (lit ''text/'')"
     and "blob_result response = Inr blob \<and> length (blob_bytes blob) = 0"
  then show "result (sendToWebhook env url text files authConfig chatId) = Inr []"
    using sendToWebhook_binary_path [OF assms(1-4)] by (simp add: binaryResponse_def)
next
  fix responseText
  assume textual: "startsWith contentType (lit ''application/json'') \<or>
                   startsWith contentType (lit ''text/'')"
     and body: "text_result response = Inr responseText \<and> (\<forall>c \<in> set responseText. isWhiteSpace c)"
  have "result (sendToWebhook env url text files authConfig chatId) =
          outerCatch (textResponse env response)"
    using sendToWebhook_text_path [OF assms(1-4) textual] .
  then show "result (sendToWebhook env url text files authConfig chatId) = Inr []"
    using body by (simp add: textResponse_blank)
qed

theorem C6_empty_body_witness:
  "result (sendToWebhook
             (examplePlatform (exampleResponse 200 (lit ''OK'') (Some (lit ''application/pdf'')) None []))
             (lit ''https://example.org/hook'') (lit ''hi'') [] NoAuth (lit ''chat-1'')) = Inr [] \<and>
   result (sendToWebhook
             (examplePlatform (exampleResponse 200 (lit ''OK'') (Some (lit ''application/json''))
                None [32, 10, 9]))
             (lit ''https://example.org/hook'') (lit ''hi'') [] NoAuth (lit ''chat-1'')) = Inr []"
proof -
  have binary: "\<not> startsWith (lit ''application/pdf'') (lit ''application/json'') \<and>
                \<not> startsWith (lit ''application/pdf'') (lit ''text/'')"
    by (simp add: lit_def)
  have textual: "startsWith (lit ''application/json'') (lit ''application/json'')"
    by (simp add: lit_def)
  have nonempty: "lit ''application/pdf'' \<noteq> []" "lit ''application/json'' \<noteq> []"
    by (simp_all add: lit_def)
  have blank: "\<forall>c \<in> set [32, 10, 9]. isWhiteSpace c"
    by (simp add: isWhiteSpace_def)
  show ?thesis
    using C6_empty_body [OF example_issued example_fetch,
        of "exampleResponse 200 (lit ''OK'') (Some (lit ''application/pdf'')) None []"
           "lit ''application/pdf''" "lit ''https://example.org/hook''" "lit ''hi''" "lit ''chat-1''"]
      C6_empty_body [OF example_issued example_fetch,
        of "exampleResponse 200 (lit ''OK'') (Some (lit ''application/json'')) None [32, 10, 9]"
           "lit ''application/json''" "lit ''https://example.org/hook''" "lit ''hi''" "lit ''chat-1''"]
      binary textual nonempty blank
    by (simp add: exampleResponse_def exampleHeadersGet_def orString_def)
qed




text \<open>
  C8. On a 2xx text/JSON response whose body parses as JSON: when the value is an object
  whose \<open>responses\<close> property is an array, sendToWebhook returns the elements of that array as
  they are and in order, whatever else the object holds (a \<open>text\<close> property included); when
  the value is itself an array, it returns the elements of the value.
  (A body that parses as JSON has a character that is not white space.)
\<close>

theorem C8_responses_verbatim:
  assumes "issued (sendToWebhook env url text files authConfig chatId) = [init]"
      and "fetch env init = Inr response"
      and "200 \<le> status response \<and> status response \<le> 299"
      and "contentType = orDefault (headers_get response (lit ''content-type'')) []"
      and "startsWith contentType (lit ''application/json'') \<or> startsWith contentType (lit ''text/'')"
      and "text_result response = Inr responseText"
      and "\<exists>c \<in> set responseText. \<not> isWhiteSpace c"
      and "JSON_parse env responseText = Inr responseData"
  shows "(\<forall>props xs. responseData = JObject props \<and>
                      map_of props (lit ''responses'') = Some (JArray xs) \<longrightarrow>
            result (sendToWebhook env url text files authConfig chatId) = Inr xs) \<and>
         (\<forall>xs. responseData = JArray xs \<longrightarrow>
            result (sendToWebhook env url text files authConfig chatId) = Inr xs)"
  using sendToWebhook_parsed [OF assms(1-7)] assms(8)
  by (auto simp: parsedResponses_responses parsedResponses_array)

theorem C8_responses_verbatim_witness:
  "result (sendToWebhook
             (examplePlatform (exampleResponse 200 (lit ''OK'') (Some (lit ''application/json'')) None
                (lit ''{\"responses\":[{\"type\":\"text\",\"content\":\"a\"}],\"text\":\"b\"}'')))
             (lit ''https://example.org/hook'') (lit ''hi'') [] NoAuth (lit ''chat-1'')) =
     Inr [JObject [(lit ''type'', JString (lit ''text'')), (lit ''content'', JString (lit ''a''))]] \<and>
   result (sendToWebhook
             (examplePlatform (exampleResponse 200 (lit ''OK'') (Some (lit ''application/json'')) None
                (lit ''[{\"type\":\"text\",\"content\":\"a\"},7]'')))
             (lit ''https://example.org/hook'') (lit ''hi'') [] NoAuth (lit ''chat-1'')) =
     Inr [JObject [(lit ''type'', JString (lit ''text'')), (lit ''content'', JString (lit ''a''))],
          JNumber 7]"
proof -
  let ?wrapped = "lit ''{\"responses\":[{\"type\":\"text\",\"content\":\"a\"}],\"text\":\"b\"}''"
  let ?bare = "lit ''[{\"type\":\"text\",\"content\":\"a\"},7]''"
  let ?item = "JObject [(lit ''type'', JString (lit ''text'')), (lit ''content'', JString (lit ''a''))]"
  let ?props = "[(lit ''responses'', JArray [?item]), (lit ''text'', JString (lit ''b''))]"
  have twoxx: "200 \<le> status (exampleResponse 200 (lit ''OK'') (Some (lit ''application/json'')) None b) \<and>
               status (exampleResponse 200 (lit ''OK'') (Some (lit ''application/json'')) None b) \<le> 299" for b
    by (simp add: exampleResponse_def)
  have ctype: "lit ''application/json'' =
               orDefault (headers_get (exampleResponse 200 (lit ''OK'') (Some (lit ''application/json'')) None b)
                            (lit ''content-type'')) []" for b
    by (simp add: exampleResponse_def exampleHeadersGet_def orString_def lit_def)
  have textual: "startsWith (lit ''application/json'') (lit ''application/json'') \<or>
                 startsWith (lit ''application/json'') (lit ''text/'')"
    by (simp add: lit_def)
  have body: "text_result (exampleResponse 200 (lit ''OK'') (Some (lit ''application/json'')) None b) = Inr b" for b
    by (simp add: exampleResponse_def)
  have visible: "\<exists>c \<in> set ?wrapped. \<not> isWhiteSpace c" "\<exists>c \<in> set ?bare. \<not> isWhiteSpace c"
    by (simp_all add: lit_def isWhiteSpace_def)
  have parsed: "JSON_parse (examplePlatform r) ?wrapped = Inr (JObject ?props)"
    "JSON_parse (examplePlatform r) ?bare = Inr (JArray [?item, JNumber 7])" for r
    by (simp_all add: examplePlatform_def exampleParse_def lit_def)
  have field: "map_of ?props (lit ''responses'') = Some (JArray [?item])"
    by simp
  have "result (sendToWebhook
             (examplePlatform (exampleResponse 200 (lit ''OK'') (Some (lit ''application/json'')) None ?wrapped))
             (lit ''https://example.org/hook'') (lit ''hi'') [] NoAuth (lit ''chat-1'')) = Inr [?item]"
    using C8_responses_verbatim [OF example_issued example_fetch twoxx ctype textual body visible(1) parsed(1)]
      field by blast
  moreover have "result (sendToWebhook
             (examplePlatform (exampleResponse 200 (lit ''OK'') (Some (lit ''application/json'')) None ?bare))
             (lit ''https://example.org/hook'') (lit ''hi'') [] NoAuth (lit ''chat-1'')) =
             Inr [?item, JNumber 7]"
    using C8_responses_verbatim [OF example_issued example_fetch twoxx ctype textual body visible(2) parsed(2)]
    by blast
  ultimately show ?thesis
    by simp
qed

text \<open>
  C9 (amended). Every request that sendToWebhook hands to fetch carries exactly these form
  fields, in this order: \<open>text\<close> and \<open>chatId\<close>, holding the message text and the session
  identifier as \<^verbatim>\<open>FormData.append\<close> stores them (each surrogate that stands alone
  replaced by U+FFFD), and one field per attachment, named \<open>file0\<close>, \<open>file1\<close>, ... by its
  position. When the text and the session identifier are well-formed, the two fields hold
  them unchanged. A request is handed over whenever building the headers does not throw.
\<close>

theorem C9_form_fields:
  "(\<forall>init \<in> set (issued (sendToWebhook env url text files authConfig chatId)).
      req_body init =
        [(lit ''text'', FormString (toUSVString text)),
         (lit ''chatId'', FormString (toUSVString chatId))] @
        map (\<lambda>i. (lit ''file'' @ decimal i, FormFile (files ! i))) [0..<length files]) \<and>
   (isWellFormed text \<and> isWellFormed chatId \<longrightarrow>
      (\<forall>init \<in> set (issued (sendToWebhook env url text files authConfig chatId)).
         req_body init =
           [(lit ''text'', FormString text), (lit ''chatId'', FormString chatId)] @
           map (\<lambda>i. (lit ''file'' @ decimal i, FormFile (files ! i))) [0..<length files])) \<and>
   (\<forall>h. buildHeaders authConfig = Inr h \<longrightarrow>
      length (issued (sendToWebhook env url text files authConfig chatId)) = 1)"
proof (cases "buildHeaders authConfig")
  case (Inl e)
  then show ?thesis by (simp add: sendToWebhook_thrown)
next
  case (Inr h)
  then show ?thesis
    by (simp add: sendToWebhook_issued buildFormData_fields toUSVString_wellFormed)
qed

theorem C9_form_fields_witness:
  "map req_body
     (issued (sendToWebhook (examplePlatform (exampleResponse 200 (lit ''OK'') None None []))
        (lit ''https://example.org/hook'') (lit ''hello'')
        [exampleFile (lit ''a.txt''), exampleFile (lit ''b.txt''), exampleFile (lit ''c.txt'')]
        NoAuth (lit ''chat-1''))) =
   [[(lit ''text'', FormString (lit ''hello'')), (lit ''chatId'', FormString (lit ''chat-1'')),
     (lit ''file0'', FormFile (exampleFile (lit ''a.txt''))),
     (lit ''file1'', FormFile (exampleFile (lit ''b.txt''))),
     (lit ''file2'', FormFile (exampleFile (lit ''c.txt'')))]]"
proof -
  let ?out = "sendToWebhook (examplePlatform (exampleResponse 200 (lit ''OK'') None None []))
        (lit ''https://example.org/hook'') (lit ''hello'')
        [exampleFile (lit ''a.txt''), exampleFile (lit ''b.txt''), exampleFile (lit ''c.txt'')]
        NoAuth (lit ''chat-1'')"
  have well: "isWellFormed (lit ''hello'') \<and> isWellFormed (lit ''chat-1'')"
    by (simp add: lit_def isHighSurrogate_def isLowSurrogate_def)
  have built: "buildHeaders NoAuth = Inr []"
    by (simp add: buildHeaders_def)
  have names: "lit ''file'' @ lit ''0'' = lit ''file0''" "lit ''file'' @ lit ''1'' = lit ''file1''"
    "lit ''file'' @ lit ''2'' = lit ''file2''"
    by (simp_all add: lit_def)
  have idx: "[0..<3] = [0, Suc 0, Suc (Suc 0)]"
    by (simp add: upt_rec)
  have one: "length (issued ?out) = 1"
    using C9_form_fields [THEN conjunct2, THEN conjunct2, rule_format, OF built] .
  then obtain init where sent: "issued ?out = [init]"
    by (cases "issued ?out") auto
  have "\<forall>init \<in> set (issued ?out). req_body init =
          [(lit ''text'', FormString (lit ''hello'')), (lit ''chatId'', FormString (lit ''chat-1''))] @
          map (\<lambda>i. (lit ''file'' @ decimal i,
                     FormFile ([exampleFile (lit ''a.txt''), exampleFile (lit ''b.txt''),
                                exampleFile (lit ''c.txt'')] ! i)))
            [0..<length [exampleFile (lit ''a.txt''), exampleFile (lit ''b.txt''),
                         exampleFile (lit ''c.txt'')]]"
    by (rule C9_form_fields [THEN conjunct2, THEN conjunct1, THEN mp, OF well])
  then have "req_body init =
          [(lit ''text'', FormString (lit ''hello'')), (lit ''chatId'', FormString (lit ''chat-1''))] @
          map (\<lambda>i. (lit ''file'' @ decimal i,
                     FormFile ([exampleFile (lit ''a.txt''), exampleFile (lit ''b.txt''),
                                exampleFile (lit ''c.txt'')] ! i)))
            [0..<length [exampleFile (lit ''a.txt''), exampleFile (lit ''b.txt''),
                         exampleFile (lit ''c.txt'')]]"
    by (simp only: sent list.set ball_simps insert_iff empty_iff simp_thms)
  then show ?thesis
    by (simp add: sent idx decimal_0 decimal_1 decimal_2 names)
qed

text \<open>
  The claim as stated fails for a message text with a surrogate that stands alone (code unit
  55296): the field \<open>text\<close> of the request holds U+FFFD (65533) in its place, not the text.
\<close>

theorem C9_lone_surrogate_counterexample:
  "map req_body
     (issued (sendToWebhook (examplePlatform (exampleResponse 200 (lit ''OK'') None None []))
        (lit ''https://example.org/hook'') [55296] [] NoAuth (lit ''chat-1''))) =
   [[(lit ''text'', FormString [65533]), (lit ''chatId'', FormString (lit ''chat-1''))]]"
proof -
  have built: "buildHeaders NoAuth = Inr []"
    by (simp add: buildHeaders_def)
  have chat: "toUSVString (lit ''chat-1'') = lit ''chat-1''"
    by (rule toUSVString_plain) (simp add: lit_def)
  have lone: "toUSVString [55296] = [65533]"
    by (simp add: isHighSurrogate_def isLowSurrogate_def)
  have body: "buildFormData [55296] [] (lit ''chat-1'') =
                [(lit ''text'', FormString [65533]), (lit ''chatId'', FormString (lit ''chat-1''))]"
    unfolding buildFormData_fields chat lone by simp
  show ?thesis
    by (subst sendToWebhook_issued [OF built]) (simp add: body)
qed

text \<open>
  C10. On a 2xx response the branch depends on the content type alone (the empty string when
  the header is absent): the text branch when it starts with \<open>application/json\<close> or with
  \<open>text/\<close>, the binary branch otherwise. An absent header and \<open>application/ld+json\<close>
  take the binary branch, \<open>application/json; charset=utf-8\<close> takes the text branch.
\<close>

theorem C10_branch_by_prefix:
  assumes "issued (sendToWebhook env url text files authConfig chatId) = [init]"
      and "fetch env init = Inr response"
      and "200 \<le> status response \<and> status response \<le> 299"
      and "contentType = orDefault (headers_get response (lit ''content-type'')) []"
  shows "result (sendToWebhook env url text files authConfig chatId) =
           outerCatch
             (if startsWith contentType (lit ''application/json'') \<or> startsWith contentType (lit ''text/'')
              then textResponse env response
              else binaryResponse env response contentType) \<and>
         (headers_get response (lit ''content-type'') = None \<longrightarrow>
            result (sendToWebhook env url text files authConfig chatId) =
              outerCatch (binaryResponse env response [])) \<and>
         (contentType = lit ''application/ld+json'' \<longrightarrow>
            result (sendToWebhook env url text files authConfig chatId) =
              outerCatch (binaryResponse env response (lit ''application/ld+json''))) \<and>
         (contentType = lit ''application/json; charset=utf-8'' \<longrightarrow>
            result (sendToWebhook env url text files authConfig chatId) =
              outerCatch (textResponse env response))"
proof -
  have branch: "result (sendToWebhook env url text files authConfig chatId) =
           outerCatch
             (if startsWith contentType (lit ''application/json'') \<or> startsWith contentType (lit ''text/'')
              then textResponse env response
              else binaryResponse env response contentType)"
    using sendToWebhook_text_path [OF assms] sendToWebhook_binary_path [OF assms] by auto
  have absent: "\<not> startsWith [] (lit ''application/json'')" "\<not> startsWith [] (lit ''text/'')"
    by (simp_all add: lit_def)
  have ld: "\<not> startsWith (lit ''application/ld+json'') (lit ''application/json'')"
    "\<not> startsWith (lit ''application/ld+json'') (lit ''text/'')"
    by (simp_all add: lit_def)
  have charset: "startsWith (lit ''application/json; charset=utf-8'') (lit ''application/json'')"
    by (simp add: lit_def)
  have none: "headers_get response (lit ''content-type'') = None \<Longrightarrow> contentType = []"
    using assms(4) by simp
  show ?thesis
    using branch absent ld charset none by auto
qed

theorem C10_branch_by_prefix_witness:
  "result (sendToWebhook
             (examplePlatform (exampleResponse 200 (lit ''OK'') (Some (lit ''application/ld+json'')) None
                (lit ''{\"foo\":1}'')))
             (lit ''https://example.org/hook'') (lit ''hi'') [] NoAuth (lit ''chat-1'')) =
     Inr [JObject
            [(lit ''type'', JString (lit ''file'')),
             (lit ''content'', JString (lit ''eyJmb28iOjF9'')),
             (lit ''fileName'', JString (lit ''file-2025-01-15_10-30-45.ld'')),
             (lit ''mimeType'', JString (lit ''application/ld+json''))]] \<and>
   result (sendToWebhook
             (examplePlatform (exampleResponse 200 (lit ''OK'') None None (lit ''{\"foo\":1}'')))
             (lit ''https://example.org/hook'') (lit ''hi'') [] NoAuth (lit ''chat-1'')) =
     Inr [JObject
            [(lit ''type'', JString (lit ''file'')),
             (lit ''content'', JString (lit ''eyJmb28iOjF9'')),
             (lit ''fileName'', JString (lit ''file-2025-01-15_10-30-45.bin'')),
             (lit ''mimeType'', JString [])]] \<and>
   result (sendToWebhook
             (examplePlatform (exampleResponse 200 (lit ''OK'')
                (Some (lit ''application/json; charset=utf-8'')) None (lit ''{\"text\":\"hello **world**\"}'')))
             (lit ''https://example.org/hook'') (lit ''hi'') [] NoAuth (lit ''chat-1'')) =
     Inr [JObject [(lit ''type'', JString (lit ''text'')),
                   (lit ''content'', JString (lit ''hello **world**''))]]"
proof -
  let ?ld = "exampleResponse 200 (lit ''OK'') (Some (lit ''application/ld+json'')) None (lit ''{\"foo\":1}'')"
  let ?bare = "exampleResponse 200 (lit ''OK'') None None (lit ''{\"foo\":1}'')"
  let ?json = "exampleResponse 200 (lit ''OK'') (Some (lit ''application/json; charset=utf-8'')) None
                 (lit ''{\"text\":\"hello **world**\"}'')"
  have no_type: "[] = orDefault (headers_get ?bare (lit ''content-type'')) []"
    by (simp add: example_content_type)
  have ld: "result (sendToWebhook (examplePlatform ?ld)
             (lit ''https://example.org/hook'') (lit ''hi'') [] NoAuth (lit ''chat-1'')) =
            outerCatch (binaryResponse (examplePlatform ?ld) ?ld (lit ''application/ld+json''))"
    by (rule C10_branch_by_prefix [OF example_issued example_fetch example_twoxx example_declared_type,
          THEN conjunct2, THEN conjunct2, THEN conjunct1, THEN mp]) simp
  have bare: "result (sendToWebhook (examplePlatform ?bare)
             (lit ''https://example.org/hook'') (lit ''hi'') [] NoAuth (lit ''chat-1'')) =
            outerCatch (binaryResponse (examplePlatform ?bare) ?bare [])"
    by (rule C10_branch_by_prefix [OF example_issued example_fetch example_twoxx no_type,
          THEN conjunct2, THEN conjunct1, THEN mp]) (simp add: example_content_type)
  have json: "result (sendToWebhook (examplePlatform ?json)
             (lit ''https://example.org/hook'') (lit ''hi'') [] NoAuth (lit ''chat-1'')) =
            outerCatch (textResponse (examplePlatform ?json) ?json)"
    by (rule C10_branch_by_prefix [OF example_issued example_fetch example_twoxx example_declared_type,
          THEN conjunct2, THEN conjunct2, THEN conjunct2, THEN mp]) simp
  have ld_item: "binaryResponse (examplePlatform ?ld) ?ld (lit ''application/ld+json'') =
     Inr [JObject
            [(lit ''type'', JString (lit ''file'')),
             (lit ''content'', JString (lit ''eyJmb28iOjF9'')),
             (lit ''fileName'', JString (lit ''file-2025-01-15_10-30-45.ld'')),
             (lit ''mimeType'', JString (lit ''application/ld+json''))]]"
    by (simp add: binaryResponse_def example_blob example_disposition dispositionFileName_absent
          Let_def example_date)
       (simp add: blobToBase64_def readAsDataURL_def getMessageType_def getExtensionFromMimeType_def
          mimeMap_lookup_def objectPrototypeNames_def templateText_def mimeMap_def toLowerCase_def
          lowerUnit_def orString_def b64_def lit_def)
  have bare_item: "binaryResponse (examplePlatform ?bare) ?bare [] =
     Inr [JObject
            [(lit ''type'', JString (lit ''file'')),
             (lit ''content'', JString (lit ''eyJmb28iOjF9'')),
             (lit ''fileName'', JString (lit ''file-2025-01-15_10-30-45.bin'')),
             (lit ''mimeType'', JString [])]]"
    by (simp add: binaryResponse_def example_blob example_disposition dispositionFileName_absent
          Let_def example_date)
       (simp add: blobToBase64_def readAsDataURL_def getMessageType_def getExtensionFromMimeType_def
          templateText_def orString_def b64_def lit_def)
  have json_item: "textResponse (examplePlatform ?json) ?json =
     Inr [JObject [(lit ''type'', JString (lit ''text'')),
                   (lit ''content'', JString (lit ''hello **world**''))]]"
    by (simp add: textResponse_def example_text parsedResponses_def example_JSON_parse textItem_def)
       (simp add: exampleParse_def trim_def isWhiteSpace_def textItem_def lit_def)
  show ?thesis
    by (simp add: ld bare json ld_item bare_item json_item)
qed

end
